theory Spec2Isabelle
  imports Main "HOL-Library.Word"
begin

section \<open>JavaScript strings\<close>

text \<open>
  A JavaScript string is a sequence of UTF-16 code units; \<open>.length\<close> counts code units.
  \<open>str\<close> turns an ASCII literal into such a string; code units beyond ASCII are written as
  numbers (the Portuguese messages of the screens contain some).
\<close>

type_synonym jschar = "16 word"
type_synonym jsstring = "jschar list"

definition str :: "string \<Rightarrow> jsstring" where
  "str cs = map (\<lambda>c. of_nat (of_char c)) cs"

text \<open>The class \<open>\d\<close> of a regular expression without the unicode flag: \<open>[0-9]\<close>.\<close>

definition is_digit :: "jschar \<Rightarrow> bool" where
  "is_digit c = (0x30 \<le> c \<and> c \<le> 0x39)"

text \<open>
  The class \<open>\s\<close>, which is also what \<open>String.prototype.trim\<close> strips: ECMAScript's
  WhiteSpace (TAB, VT, FF, ZWNBSP and the space separators) and LineTerminator
  (LF, CR, LS, PS) code points.
\<close>

definition is_space :: "jschar \<Rightarrow> bool" where
  "is_space c =
     (c = 0x09 \<or> c = 0x0A \<or> c = 0x0B \<or> c = 0x0C \<or> c = 0x0D \<or> c = 0x20 \<or> c = 0xA0
      \<or> c = 0x1680 \<or> (0x2000 \<le> c \<and> c \<le> 0x200A) \<or> c = 0x2028 \<or> c = 0x2029
      \<or> c = 0x202F \<or> c = 0x205F \<or> c = 0x3000 \<or> c = 0xFEFF)"

text \<open>\<open>s.trim()\<close>: the string without its leading and trailing white space.\<close>

definition trim :: "jsstring \<Rightarrow> jsstring" where
  "trim s = rev (dropWhile is_space (rev (dropWhile is_space s)))"

text \<open>\<open>s.replace(/\D/g, '')\<close>: every code unit that is not a digit is deleted.\<close>

definition strip_non_digits :: "jsstring \<Rightarrow> jsstring" where
  "strip_non_digits s = filter is_digit s"

section \<open>Regular expressions\<close>

text \<open>
  The fragment of JavaScript regular expressions the screens use: a character class, a
  sequence, a greedy quantifier \<open>{lo,hi}\<close> (\<open>?\<close> is \<open>{0,1}\<close>, \<open>+\<close> is \<open>{1,}\<close>, \<open>{n}\<close> is
  \<open>{n,n}\<close>) and a capturing group. No expression of the source puts a group under a
  quantifier.
\<close>

datatype rx =
    Cls "jschar \<Rightarrow> bool"
  | Seq rx rx
  | Rep nat "nat option" rx
  | Grp rx

text \<open>
  A backtracking matcher as a list of successes: \<open>run r s\<close> lists, in the order in which
  the JavaScript matcher tries them, the ways \<open>r\<close> matches a prefix of \<open>s\<close>, each as the
  captures made and the input left. A greedy quantifier tries one more iteration before
  it tries to stop; once its minimum is reached an iteration that consumes nothing is
  rejected, so \<open>{lo,}\<close> makes at most as many further iterations as there are code units
  left.
\<close>

type_synonym success = "jsstring list \<times> jsstring"

definition thread :: "success list \<Rightarrow> (jsstring \<Rightarrow> success list) \<Rightarrow> success list" where
  "thread ms k = concat (map (\<lambda>(g, r). map (\<lambda>(g', r'). (g @ g', r')) (k r)) ms)"

primrec exactly :: "(jsstring \<Rightarrow> success list) \<Rightarrow> nat \<Rightarrow> jsstring \<Rightarrow> success list" where
  "exactly f 0 s = [([], s)]"
| "exactly f (Suc n) s = thread (f s) (exactly f n)"

primrec atmost :: "(jsstring \<Rightarrow> success list) \<Rightarrow> nat \<Rightarrow> jsstring \<Rightarrow> success list" where
  "atmost f 0 s = [([], s)]"
| "atmost f (Suc n) s =
     thread (filter (\<lambda>(g, r). length r < length s) (f s)) (atmost f n) @ [([], s)]"

fun run :: "rx \<Rightarrow> jsstring \<Rightarrow> success list" where
  "run (Cls p) s = (case s of [] \<Rightarrow> [] | c # cs \<Rightarrow> if p c then [([], cs)] else [])"
| "run (Seq a b) s = thread (run a s) (\<lambda>r. run b r)"
| "run (Rep lo hi a) s =
     thread (exactly (\<lambda>t. run a t) lo s)
       (\<lambda>r. atmost (\<lambda>t. run a t) (case hi of None \<Rightarrow> length r | Some n \<Rightarrow> n - lo) r)"
| "run (Grp a) s = map (\<lambda>(g, r). (take (length s - length r) s # g, r)) (run a s)"

text \<open>
  Every expression of the source is anchored as \<open>/^...$/\<close> and has no flag, so a match
  starts at the first code unit and must leave no input: \<open>exec\<close> gives the captures of the
  first such success (\<open>match[1]\<close>, \<open>match[2]\<close>, ...), \<open>None\<close> for JavaScript's \<open>null\<close>.
\<close>

definition exec :: "rx \<Rightarrow> jsstring \<Rightarrow> jsstring list option" where
  "exec r s = map_option fst (find (\<lambda>(g, rest). rest = []) (run r s))"

definition test :: "rx \<Rightarrow> jsstring \<Rightarrow> bool" where
  "test r s = (exec r s \<noteq> None)"

definition opt :: "rx \<Rightarrow> rx" where
  "opt a = Rep 0 (Some 1) a"

definition plus :: "rx \<Rightarrow> rx" where
  "plus a = Rep 1 None a"

definition lit :: "jschar \<Rightarrow> rx" where
  "lit x = Cls (\<lambda>c. c = x)"

definition digit :: rx where
  "digit = Cls is_digit"

text \<open>\<open>[^\s@]\<close>\<close>

definition not_space_at :: rx where
  "not_space_at = Cls (\<lambda>c. \<not> (is_space c \<or> c = 0x40))"

text \<open>\<open>[\s-]\<close>\<close>

definition space_or_dash :: rx where
  "space_or_dash = Cls (\<lambda>c. is_space c \<or> c = 0x2D)"

section \<open>The validators of the screens\<close>

text \<open>
  FormScreen.tsx and LoginScreen.tsx, \<open>validateEmail\<close>:
  \<^verbatim>\<open>const emailRegex = /^[^\s@]+@[^\s@]+\.[^\s@]+$/; return emailRegex.test(email);\<close>
\<close>

definition emailRegex :: rx where
  "emailRegex =
     Seq (plus not_space_at) (Seq (lit 0x40) (Seq (plus not_space_at)
       (Seq (lit 0x2E) (plus not_space_at))))"

definition validateEmail :: "jsstring \<Rightarrow> bool" where
  "validateEmail email = test emailRegex email"

text \<open>
  FormScreen.tsx, \<open>validatePhone\<close>:
  \<^verbatim>\<open>const phoneRegex = /^\(?\d{2}\)?[\s-]?\d{4,5}[\s-]?\d{4}$/;
  return phoneRegex.test(phone.replace(/\D/g, ''));\<close>
\<close>

definition phoneRegex :: rx where
  "phoneRegex =
     Seq (opt (lit 0x28)) (Seq (Rep 2 (Some 2) digit) (Seq (opt (lit 0x29))
       (Seq (opt space_or_dash) (Seq (Rep 4 (Some 5) digit)
         (Seq (opt space_or_dash) (Rep 4 (Some 4) digit))))))"

definition validatePhone :: "jsstring \<Rightarrow> bool" where
  "validatePhone phone = test phoneRegex (strip_non_digits phone)"

text \<open>
  FormScreen.tsx, \<open>formatPhone\<close>:
  \<^verbatim>\<open>const cleaned = phone.replace(/\D/g, '');
  const match = cleaned.match(/^(\d{2})(\d{4,5})(\d{4})$/);
  if (match) { return `(${match[1]}) ${match[2]}-${match[3]}`; }
  return phone;\<close>
\<close>

definition formatRegex :: rx where
  "formatRegex =
     Seq (Grp (Rep 2 (Some 2) digit)) (Seq (Grp (Rep 4 (Some 5) digit))
       (Grp (Rep 4 (Some 4) digit)))"

definition formatPhone :: "jsstring \<Rightarrow> jsstring" where
  "formatPhone phone =
     (let cleaned = strip_non_digits phone in
      case exec formatRegex cleaned of
        Some [m1, m2, m3] \<Rightarrow> str ''('' @ m1 @ str '') '' @ m2 @ str ''-'' @ m3
      | _ \<Rightarrow> phone)"

section \<open>Dates and numbers\<close>

text \<open>
  A JavaScript \<open>Date\<close> is a point in time or the invalid date; only its local calendar
  fields matter here. \<open>new Date()\<close> is always a valid date, so the clock is read as a
  calendar day. \<open>getFullYear()\<close> of the invalid date is \<open>NaN\<close>: a number is an
  \<open>int option\<close> with \<open>None\<close> for \<open>NaN\<close>, every comparison with \<open>NaN\<close> is false.
\<close>

record calendar =
  year :: int
  month :: nat
  day :: nat

datatype date = Date calendar | InvalidDate

type_synonym number = "int option"

fun getFullYear :: "date \<Rightarrow> number" where
  "getFullYear (Date d) = Some (year d)"
| "getFullYear InvalidDate = None"

fun minus_num :: "number \<Rightarrow> number \<Rightarrow> number" where
  "minus_num (Some a) (Some b) = Some (a - b)"
| "minus_num _ _ = None"

fun less_num :: "number \<Rightarrow> number \<Rightarrow> bool" where
  "less_num (Some a) (Some b) = (a < b)"
| "less_num _ _ = False"

section \<open>FormScreen\<close>

record FormData =
  firstName :: jsstring
  lastName :: jsstring
  email :: jsstring
  phone :: jsstring
  birthDate :: date
  gender :: jsstring
  country :: jsstring
  bio :: jsstring
  notifications :: bool
  newsletter :: bool

text \<open>
  \<open>interface FormErrors\<close>: every property is optional. \<open>None\<close> is a property that reads
  as \<open>undefined\<close>, whether it was never set or was set to \<open>undefined\<close>; the screen only
  ever reads these properties.
\<close>

record FormErrors =
  firstNameError :: "jsstring option"
  lastNameError :: "jsstring option"
  emailError :: "jsstring option"
  phoneError :: "jsstring option"
  birthDateError :: "jsstring option"
  countryError :: "jsstring option"
  bioError :: "jsstring option"

definition noErrors :: FormErrors where
  "noErrors = \<lparr>firstNameError = None, lastNameError = None, emailError = None,
     phoneError = None, birthDateError = None, countryError = None, bioError = None\<rparr>"

text \<open>The four \<open>useState\<close> cells of the component.\<close>

record FormState =
  formData :: FormData
  errors :: FormErrors
  showDatePicker :: bool
  isLoading :: bool

text \<open>\<open>initialData?: Partial<FormData>\<close>\<close>

record PartialFormData =
  initFirstName :: "jsstring option"
  initLastName :: "jsstring option"
  initEmail :: "jsstring option"
  initPhone :: "jsstring option"
  initBirthDate :: "date option"
  initGender :: "jsstring option"
  initCountry :: "jsstring option"
  initBio :: "jsstring option"
  initNotifications :: "bool option"
  initNewsletter :: "bool option"

text \<open>
  \<open>initialData?.f || d\<close>: the default \<open>d\<close> when \<open>initialData\<close> or its property is
  undefined or falsy (the empty string, \<open>false\<close>); a \<open>Date\<close> object is always truthy.
\<close>

definition or_string :: "PartialFormData option \<Rightarrow> (PartialFormData \<Rightarrow> jsstring option) \<Rightarrow> jsstring \<Rightarrow> jsstring" where
  "or_string initialData f d =
     (case Option.bind initialData f of None \<Rightarrow> d | Some s \<Rightarrow> if s = [] then d else s)"

definition or_bool :: "PartialFormData option \<Rightarrow> (PartialFormData \<Rightarrow> bool option) \<Rightarrow> bool \<Rightarrow> bool" where
  "or_bool initialData f d =
     (case Option.bind initialData f of None \<Rightarrow> d | Some b \<Rightarrow> if b then b else d)"

definition or_date :: "PartialFormData option \<Rightarrow> (PartialFormData \<Rightarrow> date option) \<Rightarrow> date \<Rightarrow> date" where
  "or_date initialData f d =
     (case Option.bind initialData f of None \<Rightarrow> d | Some x \<Rightarrow> x)"

text \<open>
  The state of a freshly mounted \<open>FormScreen\<close>; \<open>now\<close> is the clock when the component
  is constructed (\<open>new Date()\<close>).
\<close>

definition initialState :: "calendar \<Rightarrow> PartialFormData option \<Rightarrow> FormState" where
  "initialState now initialData =
     \<lparr>formData =
        \<lparr>firstName = or_string initialData initFirstName [],
         lastName = or_string initialData initLastName [],
         email = or_string initialData initEmail [],
         phone = or_string initialData initPhone [],
         birthDate = or_date initialData initBirthDate (Date now),
         gender = or_string initialData initGender [],
         country = or_string initialData initCountry [],
         bio = or_string initialData initBio [],
         notifications = or_bool initialData initNotifications False,
         newsletter = or_bool initialData initNewsletter False\<rparr>,
      errors = noErrors,
      showDatePicker = False,
      isLoading = False\<rparr>"

text \<open>The messages of \<open>validateForm\<close>, code unit by code unit.\<close>

definition e_acute :: jsstring where "e_acute = [0xE9]"
definition a_acute :: jsstring where "a_acute = [0xE1]"
definition i_acute :: jsstring where "i_acute = [0xED]"
definition o_acute :: jsstring where "o_acute = [0xF3]"

definition required_msg :: "string \<Rightarrow> jsstring" where
  "required_msg what = str what @ str '' '' @ e_acute @ str '' obrigat'' @ o_acute @ str ''rio''"

definition min_length_msg :: "string \<Rightarrow> string \<Rightarrow> jsstring" where
  "min_length_msg what n = str what @ str '' deve ter pelo menos '' @ str n @ str '' caracteres''"

definition invalid_msg :: "string \<Rightarrow> jsstring" where
  "invalid_msg what = str what @ str '' inv'' @ a_acute @ str ''lido''"

definition min_age_msg :: jsstring where
  "min_age_msg = str ''Idade m'' @ i_acute @ str ''nima '' @ e_acute @ str '' 13 anos''"

definition birth_invalid_msg :: jsstring where
  "birth_invalid_msg = str ''Data de nascimento inv'' @ a_acute @ str ''lida''"

definition country_msg :: jsstring where
  "country_msg = str ''Pa'' @ i_acute @ str ''s '' @ e_acute @ str '' obrigat'' @ o_acute @ str ''rio''"

definition bio_msg :: jsstring where
  "bio_msg = str ''Bio deve ter no m'' @ a_acute @ str ''ximo 500 caracteres''"

text \<open>
  \<open>validateForm\<close> of FormScreen.tsx builds \<open>newErrors\<close> (initially \<open>{}\<close>) and \<open>isValid\<close>
  (initially \<open>true\<close>) in seven blocks, one per field, each an \<open>if\<close> / \<open>else if\<close> that
  assigns both or neither. Each block is a function on the pair of the two variables;
  the messages (\<open>'...'\<close> below) are the constants defined above.
\<close>

type_synonym verdict = "FormErrors \<times> bool"

text \<open>
  \<^verbatim>\<open>if (!formData.firstName.trim()) { newErrors.firstName = '...'; isValid = false; }
  else if (formData.firstName.length < 2) {
    newErrors.firstName = 'Nome deve ter pelo menos 2 caracteres'; isValid = false; }\<close>
\<close>

definition check_firstName :: "FormData \<Rightarrow> verdict \<Rightarrow> verdict" where
  "check_firstName fd = (\<lambda>(newErrors, isValid).
     if trim (firstName fd) = [] then
       (newErrors\<lparr>firstNameError := Some (required_msg ''Nome'')\<rparr>, False)
     else if length (firstName fd) < 2 then
       (newErrors\<lparr>firstNameError := Some (min_length_msg ''Nome'' ''2'')\<rparr>, False)
     else (newErrors, isValid))"

definition check_lastName :: "FormData \<Rightarrow> verdict \<Rightarrow> verdict" where
  "check_lastName fd = (\<lambda>(newErrors, isValid).
     if trim (lastName fd) = [] then
       (newErrors\<lparr>lastNameError := Some (required_msg ''Sobrenome'')\<rparr>, False)
     else if length (lastName fd) < 2 then
       (newErrors\<lparr>lastNameError := Some (min_length_msg ''Sobrenome'' ''2'')\<rparr>, False)
     else (newErrors, isValid))"

text \<open>
  \<^verbatim>\<open>if (!formData.email.trim()) { newErrors.email = '...'; isValid = false; }
  else if (!validateEmail(formData.email)) { newErrors.email = '...'; isValid = false; }\<close>
\<close>

definition check_email :: "FormData \<Rightarrow> verdict \<Rightarrow> verdict" where
  "check_email fd = (\<lambda>(newErrors, isValid).
     if trim (email fd) = [] then
       (newErrors\<lparr>emailError := Some (required_msg ''Email'')\<rparr>, False)
     else if \<not> validateEmail (email fd) then
       (newErrors\<lparr>emailError := Some (invalid_msg ''Email'')\<rparr>, False)
     else (newErrors, isValid))"

text \<open>
  \<^verbatim>\<open>if (!formData.phone.trim()) { newErrors.phone = '...'; isValid = false; }
  else if (!validatePhone(formData.phone)) { newErrors.phone = '...'; isValid = false; }\<close>
\<close>

definition check_phone :: "FormData \<Rightarrow> verdict \<Rightarrow> verdict" where
  "check_phone fd = (\<lambda>(newErrors, isValid).
     if trim (phone fd) = [] then
       (newErrors\<lparr>phoneError := Some (required_msg ''Telefone'')\<rparr>, False)
     else if \<not> validatePhone (phone fd) then
       (newErrors\<lparr>phoneError := Some (invalid_msg ''Telefone'')\<rparr>, False)
     else (newErrors, isValid))"

text \<open>
  \<^verbatim>\<open>const today = new Date();
  const age = today.getFullYear() - formData.birthDate.getFullYear();
  if (age < 13) { newErrors.birthDate = '...'; isValid = false; }
  else if (age > 120) { newErrors.birthDate = '...'; isValid = false; }\<close>
  \<open>today\<close> is the clock the block reads.
\<close>

definition age :: "calendar \<Rightarrow> FormData \<Rightarrow> number" where
  "age today fd = minus_num (getFullYear (Date today)) (getFullYear (birthDate fd))"

definition check_birthDate :: "calendar \<Rightarrow> FormData \<Rightarrow> verdict \<Rightarrow> verdict" where
  "check_birthDate today fd = (\<lambda>(newErrors, isValid).
     if less_num (age today fd) (Some 13) then
       (newErrors\<lparr>birthDateError := Some min_age_msg\<rparr>, False)
     else if less_num (Some 120) (age today fd) then
       (newErrors\<lparr>birthDateError := Some birth_invalid_msg\<rparr>, False)
     else (newErrors, isValid))"

text \<open>
  \<^verbatim>\<open>if (!formData.country) { newErrors.country = '...'; isValid = false; }\<close>
\<close>

definition check_country :: "FormData \<Rightarrow> verdict \<Rightarrow> verdict" where
  "check_country fd = (\<lambda>(newErrors, isValid).
     if country fd = [] then (newErrors\<lparr>countryError := Some country_msg\<rparr>, False)
     else (newErrors, isValid))"

text \<open>
  \<^verbatim>\<open>if (formData.bio.length > 500) {
    newErrors.bio = '...'; isValid = false; }\<close>
\<close>

definition check_bio :: "FormData \<Rightarrow> verdict \<Rightarrow> verdict" where
  "check_bio fd = (\<lambda>(newErrors, isValid).
     if length (bio fd) > 500 then (newErrors\<lparr>bioError := Some bio_msg\<rparr>, False)
     else (newErrors, isValid))"

text \<open>
  The whole function: the blocks in the order of the source, then \<open>setErrors(newErrors)\<close>
  and \<open>return isValid\<close>.
\<close>

definition validateForm :: "calendar \<Rightarrow> FormState \<Rightarrow> bool \<times> FormState" where
  "validateForm today st =
     (let fd = formData st;
          v = (noErrors, True);
          v = check_firstName fd v;
          v = check_lastName fd v;
          v = check_email fd v;
          v = check_phone fd v;
          v = check_birthDate today fd v;
          v = check_country fd v;
          v = check_bio fd v
      in (snd v, st\<lparr>errors := fst v\<rparr>))"

text \<open>
  \<open>updateFormData(field: keyof FormData, value: any)\<close>. The value is dynamically typed;
  \<open>interface FormData\<close> fixes the type of each property and every call site of the
  screen passes a value of that type (text inputs and pickers a string, the switches a
  boolean, the date picker a \<open>Date\<close>). A pair outside the interface has no place in
  \<open>FormData\<close>: \<open>set_field\<close> is \<open>None\<close> there.
\<close>

datatype field =
  FirstName | LastName | Email | Phone | BirthDate | Gender | Country | Bio
  | Notifications | Newsletter

datatype jsvalue = VString jsstring | VBoolean bool | VDate date

fun has_type :: "field \<Rightarrow> jsvalue \<Rightarrow> bool" where
  "has_type BirthDate (VDate d) = True"
| "has_type BirthDate _ = False"
| "has_type Notifications (VBoolean b) = True"
| "has_type Notifications _ = False"
| "has_type Newsletter (VBoolean b) = True"
| "has_type Newsletter _ = False"
| "has_type _ (VString s) = True"
| "has_type _ _ = False"

text \<open>\<open>formData[field]\<close>\<close>

fun get_field :: "FormData \<Rightarrow> field \<Rightarrow> jsvalue" where
  "get_field fd FirstName = VString (firstName fd)"
| "get_field fd LastName = VString (lastName fd)"
| "get_field fd Email = VString (email fd)"
| "get_field fd Phone = VString (phone fd)"
| "get_field fd BirthDate = VDate (birthDate fd)"
| "get_field fd Gender = VString (gender fd)"
| "get_field fd Country = VString (country fd)"
| "get_field fd Bio = VString (bio fd)"
| "get_field fd Notifications = VBoolean (notifications fd)"
| "get_field fd Newsletter = VBoolean (newsletter fd)"

text \<open>\<open>{ ...prev, [field]: value }\<close> on the form data\<close>

fun set_field :: "field \<Rightarrow> jsvalue \<Rightarrow> FormData \<Rightarrow> FormData option" where
  "set_field FirstName (VString s) fd = Some (fd\<lparr>firstName := s\<rparr>)"
| "set_field LastName (VString s) fd = Some (fd\<lparr>lastName := s\<rparr>)"
| "set_field Email (VString s) fd = Some (fd\<lparr>email := s\<rparr>)"
| "set_field Phone (VString s) fd = Some (fd\<lparr>phone := s\<rparr>)"
| "set_field BirthDate (VDate d) fd = Some (fd\<lparr>birthDate := d\<rparr>)"
| "set_field Gender (VString s) fd = Some (fd\<lparr>gender := s\<rparr>)"
| "set_field Country (VString s) fd = Some (fd\<lparr>country := s\<rparr>)"
| "set_field Bio (VString s) fd = Some (fd\<lparr>bio := s\<rparr>)"
| "set_field Notifications (VBoolean b) fd = Some (fd\<lparr>notifications := b\<rparr>)"
| "set_field Newsletter (VBoolean b) fd = Some (fd\<lparr>newsletter := b\<rparr>)"
| "set_field _ _ fd = None"

text \<open>
  \<open>errors[field as keyof FormErrors]\<close>: the three keys of \<open>FormData\<close> that are no keys of
  \<open>FormErrors\<close> read as \<open>undefined\<close>.
\<close>

fun error_of :: "FormErrors \<Rightarrow> field \<Rightarrow> jsstring option" where
  "error_of e FirstName = firstNameError e"
| "error_of e LastName = lastNameError e"
| "error_of e Email = emailError e"
| "error_of e Phone = phoneError e"
| "error_of e BirthDate = birthDateError e"
| "error_of e Country = countryError e"
| "error_of e Bio = bioError e"
| "error_of e _ = None"

text \<open>\<open>{ ...prev, [field]: undefined }\<close> on the errors\<close>

fun clear_error :: "field \<Rightarrow> FormErrors \<Rightarrow> FormErrors" where
  "clear_error FirstName e = e\<lparr>firstNameError := None\<rparr>"
| "clear_error LastName e = e\<lparr>lastNameError := None\<rparr>"
| "clear_error Email e = e\<lparr>emailError := None\<rparr>"
| "clear_error Phone e = e\<lparr>phoneError := None\<rparr>"
| "clear_error BirthDate e = e\<lparr>birthDateError := None\<rparr>"
| "clear_error Country e = e\<lparr>countryError := None\<rparr>"
| "clear_error Bio e = e\<lparr>bioError := None\<rparr>"
| "clear_error _ e = e"

text \<open>
  The truth value of an optional string, as in \<open>if (errors[field])\<close> and in the
  \<open>error && ...\<close> of the view: \<open>undefined\<close> and the empty string are falsy.
\<close>

fun truthy :: "jsstring option \<Rightarrow> bool" where
  "truthy None = False"
| "truthy (Some m) = (m \<noteq> [])"

definition updateFormData :: "field \<Rightarrow> jsvalue \<Rightarrow> FormState \<Rightarrow> FormState option" where
  "updateFormData fld v st =
     (case set_field fld v (formData st) of
        None \<Rightarrow> None
      | Some fd \<Rightarrow>
          Some (if truthy (error_of (errors st) fld)
                then st\<lparr>formData := fd, errors := clear_error fld (errors st)\<rparr>
                else st\<lparr>formData := fd\<rparr>))"

section \<open>Submission\<close>

text \<open>
  What a handler does to the world outside the component state, in order: an alert
  (title, message), the awaited timer that stands for the sending of the data, and the
  calls of the optional callbacks \<open>onSubmit\<close> and \<open>onLogin\<close>. A callback returns or throws.
\<close>

datatype effect =
    Alert jsstring jsstring
  | Timeout nat
  | OnSubmit FormData
  | OnLogin jsstring jsstring

datatype outcome = Returns | Throws

definition form_error_alert :: effect where
  "form_error_alert =
     Alert (str ''Erro'') (str ''Por favor, corrija os erros no formul'' @ a_acute @ str ''rio.'')"

definition form_success_alert :: effect where
  "form_success_alert =
     Alert (str ''Sucesso'') (str ''Formul'' @ a_acute @ str ''rio enviado com sucesso!'')"

definition form_failure_alert :: effect where
  "form_failure_alert =
     Alert (str ''Erro'') (str ''Falha ao enviar formul'' @ a_acute @ str ''rio. Tente novamente.'')"

text \<open>
  \<open>handleSubmit\<close> is asynchronous. Up to its \<open>await\<close>: validation, the early return with
  the alert, \<open>setIsLoading(true)\<close>. The third component is the form data its closure
  holds while it is suspended, \<open>None\<close> when it has returned.
\<close>

definition handleSubmit_start :: "calendar \<Rightarrow> FormState \<Rightarrow> FormState \<times> effect list \<times> FormData option" where
  "handleSubmit_start today st =
     (let (isValid, st1) = validateForm today st in
      if \<not> isValid then (st1, [form_error_alert], None)
      else (st1\<lparr>isLoading := True\<rparr>, [Timeout 2000], Some (formData st)))"

text \<open>
  After the timer: the body of \<open>try\<close>, the \<open>catch\<close> (reached when the callback throws; the
  timer's promise never rejects) and the \<open>finally\<close>, on the state the component has by
  then.
\<close>

definition handleSubmit_resume :: "(FormData \<Rightarrow> outcome) option \<Rightarrow> FormData \<Rightarrow> FormState \<Rightarrow> FormState \<times> effect list" where
  "handleSubmit_resume onSubmit fd st =
     (let tr = (case onSubmit of
                  Some f \<Rightarrow> (case f fd of
                               Returns \<Rightarrow> [OnSubmit fd]
                             | Throws \<Rightarrow> [OnSubmit fd, form_failure_alert])
                | None \<Rightarrow> [form_success_alert])
      in (st\<lparr>isLoading := False\<rparr>, tr))"

text \<open>One whole call, no other handler running while it waits.\<close>

definition handleSubmit :: "calendar \<Rightarrow> (FormData \<Rightarrow> outcome) option \<Rightarrow> FormState \<Rightarrow> FormState \<times> effect list" where
  "handleSubmit today onSubmit st =
     (case handleSubmit_start today st of
        (st1, tr, None) \<Rightarrow> (st1, tr)
      | (st1, tr, Some fd) \<Rightarrow>
          (let (st2, tr2) = handleSubmit_resume onSubmit fd st1 in (st2, tr @ tr2)))"

section \<open>LoginScreen\<close>

text \<open>
  The error object of the login screen always has both properties; the empty string is
  its "no error" (the view shows a message only when the string is truthy).
\<close>

record LoginErrors =
  emailMessage :: jsstring
  passwordMessage :: jsstring

record LoginState =
  loginEmail :: jsstring
  loginPassword :: jsstring
  showPassword :: bool
  loginLoading :: bool
  loginErrors :: LoginErrors

definition initialLogin :: LoginState where
  "initialLogin = \<lparr>loginEmail = [], loginPassword = [], showPassword = False,
     loginLoading = False, loginErrors = \<lparr>emailMessage = [], passwordMessage = []\<rparr>\<rparr>"

definition password_required_msg :: jsstring where
  "password_required_msg = str ''Senha '' @ e_acute @ str '' obrigat'' @ o_acute @ str ''ria''"

text \<open>\<open>validateForm\<close> of LoginScreen.tsx\<close>

definition validateForm_login :: "LoginState \<Rightarrow> bool \<times> LoginState" where
  "validateForm_login st =
     (let newErrors = \<lparr>emailMessage = [], passwordMessage = []\<rparr>;
          isValid = True;
          (newErrors, isValid) =
             (if trim (loginEmail st) = [] then
                (newErrors\<lparr>emailMessage := required_msg ''Email''\<rparr>, False)
              else if \<not> validateEmail (loginEmail st) then
                (newErrors\<lparr>emailMessage := invalid_msg ''Email''\<rparr>, False)
              else (newErrors, isValid));
          (newErrors, isValid) =
             (if trim (loginPassword st) = [] then
                (newErrors\<lparr>passwordMessage := password_required_msg\<rparr>, False)
              else if length (loginPassword st) < 6 then
                (newErrors\<lparr>passwordMessage := min_length_msg ''Senha'' ''6''\<rparr>, False)
              else (newErrors, isValid))
      in (isValid, st\<lparr>loginErrors := newErrors\<rparr>))"

definition login_success_alert :: effect where
  "login_success_alert = Alert (str ''Sucesso'') (str ''Login realizado com sucesso!'')"

definition login_failure_alert :: effect where
  "login_failure_alert = Alert (str ''Erro'') (str ''Falha no login. Tente novamente.'')"

definition handleLogin_start :: "LoginState \<Rightarrow> LoginState \<times> effect list \<times> (jsstring \<times> jsstring) option" where
  "handleLogin_start st =
     (let (isValid, st1) = validateForm_login st in
      if \<not> isValid then (st1, [], None)
      else (st1\<lparr>loginLoading := True\<rparr>, [Timeout 2000], Some (loginEmail st, loginPassword st)))"

definition handleLogin_resume :: "(jsstring \<Rightarrow> jsstring \<Rightarrow> outcome) option \<Rightarrow> jsstring \<times> jsstring \<Rightarrow> LoginState \<Rightarrow> LoginState \<times> effect list" where
  "handleLogin_resume onLogin cred st =
     (let tr = (case onLogin of
                  Some f \<Rightarrow> (case f (fst cred) (snd cred) of
                               Returns \<Rightarrow> [OnLogin (fst cred) (snd cred)]
                             | Throws \<Rightarrow> [OnLogin (fst cred) (snd cred), login_failure_alert])
                | None \<Rightarrow> [login_success_alert])
      in (st\<lparr>loginLoading := False\<rparr>, tr))"

definition handleLogin :: "(jsstring \<Rightarrow> jsstring \<Rightarrow> outcome) option \<Rightarrow> LoginState \<Rightarrow> LoginState \<times> effect list" where
  "handleLogin onLogin st =
     (case handleLogin_start st of
        (st1, tr, None) \<Rightarrow> (st1, tr)
      | (st1, tr, Some cred) \<Rightarrow>
          (let (st2, tr2) = handleLogin_resume onLogin cred st1 in (st2, tr @ tr2)))"

section \<open>Observations on traces\<close>

text \<open>How often a handler called a callback, and how often it awaited the timer.\<close>

fun is_call :: "effect \<Rightarrow> bool" where
  "is_call (OnSubmit fd) = True"
| "is_call (OnLogin e p) = True"
| "is_call _ = False"

fun is_send :: "effect \<Rightarrow> bool" where
  "is_send (Timeout ms) = True"
| "is_send _ = False"

definition calls :: "effect list \<Rightarrow> nat" where
  "calls tr = length (filter is_call tr)"

definition sends :: "effect list \<Rightarrow> nat" where
  "sends tr = length (filter is_send tr)"

section \<open>The rule table of the specification\<close>

text \<open>
  The failure conditions of the specification's validation rule table, in its words:
  names "empty after trim, or length < 2"; email "empty, or fails local@domain.tld shape";
  phone "empty, or digit count/grouping does not match a 10-11 digit local-format phone
  number"; birth date "computed age < 13 or > 120"; country "empty/sentinel value
  selected"; bio "length > 500"; login email "as above"; login password "empty, or
  length < 6". The shape of an email is the pattern of \<open>validateEmail\<close>.
\<close>

fun spec_fails :: "calendar \<Rightarrow> FormData \<Rightarrow> field \<Rightarrow> bool" where
  "spec_fails today fd FirstName = (trim (firstName fd) = [] \<or> length (firstName fd) < 2)"
| "spec_fails today fd LastName = (trim (lastName fd) = [] \<or> length (lastName fd) < 2)"
| "spec_fails today fd Email = (email fd = [] \<or> \<not> validateEmail (email fd))"
| "spec_fails today fd Phone =
     (phone fd = [] \<or> \<not> (length (strip_non_digits (phone fd)) = 10
        \<or> length (strip_non_digits (phone fd)) = 11))"
| "spec_fails today fd BirthDate =
     (less_num (age today fd) (Some 13) \<or> less_num (Some 120) (age today fd))"
| "spec_fails today fd Country = (country fd = [])"
| "spec_fails today fd Bio = (length (bio fd) > 500)"
| "spec_fails today fd _ = False"

definition spec_fails_login_email :: "jsstring \<Rightarrow> bool" where
  "spec_fails_login_email e = (e = [] \<or> \<not> validateEmail e)"

definition spec_fails_login_password :: "jsstring \<Rightarrow> bool" where
  "spec_fails_login_password p = (p = [] \<or> length p < 6)"

section \<open>Sample inputs\<close>

definition sample_today :: calendar where
  "sample_today = \<lparr>year = 2026, month = 10, day = 2\<rparr>"

definition sample_form :: FormData where
  "sample_form =
     \<lparr>firstName = str ''Ana'', lastName = str ''Silva'', email = str ''ana@x.br'',
      phone = str ''(11) 99999-9999'', birthDate = Date \<lparr>year = 2000, month = 4, day = 15\<rparr>,
      gender = [], country = str ''BR'', bio = [], notifications = False,
      newsletter = False\<rparr>"

definition sample_state :: FormState where
  "sample_state = \<lparr>formData = sample_form, errors = noErrors, showDatePicker = False,
     isLoading = False\<rparr>"

definition born :: "int \<Rightarrow> FormState" where
  "born y = sample_state\<lparr>formData := sample_form\<lparr>birthDate := Date \<lparr>year = y, month = 11, day = 31\<rparr>\<rparr>\<rparr>"

definition sample_login :: "string \<Rightarrow> string \<Rightarrow> LoginState" where
  "sample_login e p = initialLogin\<lparr>loginEmail := str e, loginPassword := str p\<rparr>"

section \<open>Facts about strings and the regular expressions\<close>

lemma digit_not_space: "is_digit c \<Longrightarrow> \<not> is_space c"
  unfolding is_digit_def is_space_def by (auto simp: word_le_nat_alt)

lemma trim_empty_iff: "trim s = [] \<longleftrightarrow> (\<forall>c\<in>set s. is_space c)"
proof
  assume "trim s = []"
  then have all: "\<forall>x\<in>set (dropWhile is_space s). is_space x"
    by (simp add: trim_def dropWhile_eq_Nil_conv)
  have "dropWhile is_space s = []"
  proof (rule ccontr)
    assume ne: "dropWhile is_space s \<noteq> []"
    then have "\<not> is_space (hd (dropWhile is_space s))" by (rule hd_dropWhile)
    moreover from ne have "hd (dropWhile is_space s) \<in> set (dropWhile is_space s)" by simp
    ultimately show False using all by blast
  qed
  then show "\<forall>c\<in>set s. is_space c" by (simp add: dropWhile_eq_Nil_conv)
next
  assume "\<forall>c\<in>set s. is_space c"
  then have "dropWhile is_space s = []" by (simp add: dropWhile_eq_Nil_conv)
  then show "trim s = []" unfolding trim_def by (simp only: rev.simps dropWhile.simps)
qed

lemma thread_Nil [simp]: "thread [] k = []"
  by (simp add: thread_def)

lemma thread_single [simp]: "thread [([], r)] k = k r"
  by (simp add: thread_def)

lemma thread_append [simp]: "thread (xs @ ys) k = thread xs k @ thread ys k"
  by (simp add: thread_def)

lemma thread_Cons_Nil [simp]: "thread (([], r) # ms) k = k r @ thread ms k"
  by (simp add: thread_def)

lemma thread_Cons: "thread ((g, r) # ms) k = map (\<lambda>(g', r'). (g @ g', r')) (k r) @ thread ms k"
  by (simp add: thread_def)

lemma run_Cls_digit: "list_all is_digit d \<Longrightarrow> run digit d = (if d = [] then [] else [([], drop 1 d)])"
  by (cases d) (simp_all add: digit_def)

lemma exactly_digit:
  "list_all is_digit d \<Longrightarrow> exactly (\<lambda>t. run digit t) n d = (if n \<le> length d then [([], drop n d)] else [])"
proof (induction n arbitrary: d)
  case 0 then show ?case by simp
next
  case (Suc n)
  show ?case
  proof (cases d)
    case Nil then show ?thesis by (simp add: digit_def)
  next
    case (Cons c cs)
    with Suc.prems have "is_digit c" "list_all is_digit cs" by simp_all
    with Suc.IH[of cs] Cons show ?thesis by (simp add: digit_def)
  qed
qed

lemma atmost_digit_1:
  "list_all is_digit d \<Longrightarrow>
   atmost (\<lambda>t. run digit t) (Suc 0) d = (if d = [] then [([], d)] else [([], drop 1 d), ([], d)])"
  by (cases d) (simp_all add: digit_def)

lemma run_opt_nondigit:
  "list_all is_digit d \<Longrightarrow> (\<And>c. is_digit c \<Longrightarrow> \<not> p c) \<Longrightarrow> run (opt (Cls p)) d = [([], d)]"
  by (cases d) (simp_all add: opt_def)

lemma list_all_drop: "list_all P d \<Longrightarrow> list_all P (drop n d)"
  by (auto simp: list_all_iff dest: in_set_dropD)

lemma run_rep_digit_exact:
  "list_all is_digit d \<Longrightarrow>
   run (Rep n (Some n) digit) d = (if n \<le> length d then [([], drop n d)] else [])"
  by (simp add: exactly_digit)

lemma run_rep_digit_45:
  "list_all is_digit d \<Longrightarrow>
   run (Rep 4 (Some 5) digit) d =
     (if 5 \<le> length d then [([], drop 5 d), ([], drop 4 d)]
      else if 4 = length d then [([], [])] else [])"
  by (auto simp add: exactly_digit run_Cls_digit list_all_drop)

lemma digit_not_lparen: "is_digit c \<Longrightarrow> c \<noteq> 0x28"
  unfolding is_digit_def by auto

lemma digit_not_rparen: "is_digit c \<Longrightarrow> c \<noteq> 0x29"
  unfolding is_digit_def by auto

lemma digit_not_dash: "is_digit c \<Longrightarrow> c \<noteq> 0x2D"
  unfolding is_digit_def by auto

lemma run_opt_lit_digits:
  "list_all is_digit d \<Longrightarrow> \<not> is_digit x \<Longrightarrow> run (opt (lit x)) d = [([], d)]"
  unfolding lit_def by (rule run_opt_nondigit) auto

lemma run_opt_sep_digits:
  "list_all is_digit d \<Longrightarrow> run (opt space_or_dash) d = [([], d)]"
  unfolding space_or_dash_def
  by (rule run_opt_nondigit) (auto dest: digit_not_space digit_not_dash)

lemma run_phoneRegex:
  assumes "list_all is_digit d"
  shows "map snd (run phoneRegex d) =
     (if 11 \<le> length d then [drop 11 d, drop 10 d]
      else if length d = 10 then [[]] else [])"
  using assms
  by (auto simp add: phoneRegex_def run_opt_lit_digits run_opt_sep_digits run_rep_digit_exact
      run_rep_digit_45 list_all_drop is_digit_def simp del: run.simps(3))

lemma test_iff: "test r s \<longleftrightarrow> [] \<in> set (map snd (run r s))"
  by (force simp: test_def exec_def find_None_iff image_iff)

lemma list_all_strip: "list_all is_digit (strip_non_digits s)"
  by (simp add: strip_non_digits_def list_all_iff)

lemma validatePhone_iff:
  "validatePhone s \<longleftrightarrow> length (strip_non_digits s) = 10 \<or> length (strip_non_digits s) = 11"
  unfolding validatePhone_def test_iff run_phoneRegex [OF list_all_strip]
  by auto

lemma validatePhone_not_blank:
  assumes "validatePhone s"
  shows "trim s \<noteq> []"
proof
  assume "trim s = []"
  then have "\<forall>c\<in>set s. is_space c" by (simp add: trim_empty_iff)
  then have "filter is_digit s = []"
    by (auto simp: filter_empty_conv dest: digit_not_space)
  with assms show False by (simp add: validatePhone_iff strip_non_digits_def)
qed

lemma run_plus_empty: "run a s = [] \<Longrightarrow> run (plus a) s = []"
  by (simp add: plus_def)

lemma validateEmail_first:
  assumes "validateEmail s"
  shows "s \<noteq> [] \<and> \<not> is_space (hd s)"
proof (rule ccontr)
  assume "\<not> (s \<noteq> [] \<and> \<not> is_space (hd s))"
  then have "run not_space_at s = []"
    by (cases s) (simp_all add: not_space_at_def)
  then have "run emailRegex s = []"
    by (simp add: emailRegex_def run_plus_empty del: run.simps(3))
  with assms show False by (simp add: validateEmail_def test_iff)
qed

lemma validateEmail_not_blank:
  assumes "validateEmail s"
  shows "trim s \<noteq> []"
proof
  assume "trim s = []"
  then have "\<forall>c\<in>set s. is_space c" by (simp add: trim_empty_iff)
  moreover from validateEmail_first [OF assms] have "hd s \<in> set s" "\<not> is_space (hd s)" by simp_all
  ultimately show False by blast
qed

lemma run_Grp_exact:
  "list_all is_digit d \<Longrightarrow>
   run (Grp (Rep n (Some n) digit)) d = (if n \<le> length d then [([take n d], drop n d)] else [])"
  by (simp add: run_rep_digit_exact del: run.simps(3))

lemma run_Grp_45:
  "list_all is_digit d \<Longrightarrow>
   run (Grp (Rep 4 (Some 5) digit)) d =
     (if 5 \<le> length d then [([take 5 d], drop 5 d), ([take 4 d], drop 4 d)]
      else if 4 = length d then [([d], [])] else [])"
  by (simp add: run_rep_digit_45 del: run.simps(3))

lemma run_formatRegex:
  assumes "list_all is_digit d"
  shows "run formatRegex d =
     (if 11 \<le> length d then
        [([take 2 d, take 5 (drop 2 d), take 4 (drop 7 d)], drop 11 d),
         ([take 2 d, take 4 (drop 2 d), take 4 (drop 6 d)], drop 10 d)]
      else if length d = 10 then
        [([take 2 d, take 4 (drop 2 d), take 4 (drop 6 d)], [])]
      else [])"
  using assms
  by (auto simp add: formatRegex_def run_Grp_exact run_Grp_45 thread_Cons
      list_all_drop simp del: run.simps(3) run.simps(4))

lemma exec_formatRegex:
  assumes "list_all is_digit d"
  shows "exec formatRegex d =
     (if length d = 11 then Some [take 2 d, take 5 (drop 2 d), drop 7 d]
      else if length d = 10 then Some [take 2 d, take 4 (drop 2 d), drop 6 d]
      else None)"
  unfolding exec_def run_formatRegex [OF assms]
  by auto

lemma formatPhone_eq:
  "formatPhone s =
     (if length (strip_non_digits s) = 11 then
        str ''('' @ take 2 (strip_non_digits s) @ str '') '' @ take 5 (drop 2 (strip_non_digits s))
          @ str ''-'' @ drop 7 (strip_non_digits s)
      else if length (strip_non_digits s) = 10 then
        str ''('' @ take 2 (strip_non_digits s) @ str '') '' @ take 4 (drop 2 (strip_non_digits s))
          @ str ''-'' @ drop 6 (strip_non_digits s)
      else s)"
  by (simp add: formatPhone_def Let_def exec_formatRegex [OF list_all_strip])


lemma filter_digits_id: "list_all is_digit d \<Longrightarrow> filter is_digit d = d"
  by (simp add: list_all_iff)

lemma take_drop_parts: "take 2 d @ take n (drop 2 d) @ drop (2 + n) d = d"
proof -
  have "take n (drop 2 d) @ drop n (drop 2 d) = drop 2 d" by (rule append_take_drop_id)
  then have "take n (drop 2 d) @ drop (2 + n) d = drop 2 d" by (simp add: add.commute)
  then show ?thesis by simp
qed

lemma strip_formatted:
  "strip_non_digits (str ''('' @ a @ str '') '' @ b @ str ''-'' @ c) =
     strip_non_digits a @ strip_non_digits b @ strip_non_digits c"
  by (simp add: strip_non_digits_def str_def is_digit_def)

lemma strip_digits: "list_all is_digit d \<Longrightarrow> strip_non_digits d = d"
  by (simp add: strip_non_digits_def filter_digits_id)

lemma list_all_take: "list_all P d \<Longrightarrow> list_all P (take n d)"
  by (auto simp: list_all_iff dest: in_set_takeD)

lemma strip_formatPhone: "strip_non_digits (formatPhone s) = strip_non_digits s"
proof -
  let ?d = "strip_non_digits s"
  have d: "list_all is_digit ?d" by (rule list_all_strip)
  have parts: "strip_non_digits (str ''('' @ take 2 ?d @ str '') '' @ take n (drop 2 ?d)
      @ str ''-'' @ drop (2 + n) ?d) = ?d" for n
  proof -
    have "strip_non_digits (take 2 ?d) = take 2 ?d"
      "strip_non_digits (take n (drop 2 ?d)) = take n (drop 2 ?d)"
      "strip_non_digits (drop (2 + n) ?d) = drop (2 + n) ?d"
      using d by (simp_all only: strip_digits list_all_drop list_all_take)
    then show ?thesis
      unfolding strip_formatted by (simp only: take_drop_parts)
  qed
  show ?thesis
    using parts [of 5] parts [of 4] by (simp add: formatPhone_eq [of s])
qed

lemma formatPhone_idem: "formatPhone (formatPhone s) = formatPhone s"
  by (simp add: formatPhone_eq [of "formatPhone s"] strip_formatPhone)
    (simp add: formatPhone_eq [of s])

lemma validatePhone_formatPhone: "validatePhone (formatPhone s) = validatePhone s"
  by (simp add: validatePhone_iff strip_formatPhone)

section \<open>Facts about validation\<close>

lemma check_firstName_sel:
  "firstNameError (fst (check_firstName fd v)) =
     (if trim (firstName fd) = [] then Some (required_msg ''Nome'') else if length (firstName fd) < 2 then Some (min_length_msg ''Nome'' ''2'') else firstNameError (fst v))"
  "lastNameError (fst (check_firstName fd v)) = lastNameError (fst v)"
  "emailError (fst (check_firstName fd v)) = emailError (fst v)"
  "phoneError (fst (check_firstName fd v)) = phoneError (fst v)"
  "birthDateError (fst (check_firstName fd v)) = birthDateError (fst v)"
  "countryError (fst (check_firstName fd v)) = countryError (fst v)"
  "bioError (fst (check_firstName fd v)) = bioError (fst v)"
  "snd (check_firstName fd v) = (snd v \<and> \<not> (trim (firstName fd) = [] \<or> length (firstName fd) < 2))"
  by (simp_all add: check_firstName_def split_def)

lemma check_lastName_sel:
  "firstNameError (fst (check_lastName fd v)) = firstNameError (fst v)"
  "lastNameError (fst (check_lastName fd v)) =
     (if trim (lastName fd) = [] then Some (required_msg ''Sobrenome'') else if length (lastName fd) < 2 then Some (min_length_msg ''Sobrenome'' ''2'') else lastNameError (fst v))"
  "emailError (fst (check_lastName fd v)) = emailError (fst v)"
  "phoneError (fst (check_lastName fd v)) = phoneError (fst v)"
  "birthDateError (fst (check_lastName fd v)) = birthDateError (fst v)"
  "countryError (fst (check_lastName fd v)) = countryError (fst v)"
  "bioError (fst (check_lastName fd v)) = bioError (fst v)"
  "snd (check_lastName fd v) = (snd v \<and> \<not> (trim (lastName fd) = [] \<or> length (lastName fd) < 2))"
  by (simp_all add: check_lastName_def split_def)

lemma check_email_sel:
  "firstNameError (fst (check_email fd v)) = firstNameError (fst v)"
  "lastNameError (fst (check_email fd v)) = lastNameError (fst v)"
  "emailError (fst (check_email fd v)) =
     (if trim (email fd) = [] then Some (required_msg ''Email'') else if \<not> validateEmail (email fd) then Some (invalid_msg ''Email'') else emailError (fst v))"
  "phoneError (fst (check_email fd v)) = phoneError (fst v)"
  "birthDateError (fst (check_email fd v)) = birthDateError (fst v)"
  "countryError (fst (check_email fd v)) = countryError (fst v)"
  "bioError (fst (check_email fd v)) = bioError (fst v)"
  "snd (check_email fd v) = (snd v \<and> \<not> (trim (email fd) = [] \<or> \<not> validateEmail (email fd)))"
  by (simp_all add: check_email_def split_def)

lemma check_phone_sel:
  "firstNameError (fst (check_phone fd v)) = firstNameError (fst v)"
  "lastNameError (fst (check_phone fd v)) = lastNameError (fst v)"
  "emailError (fst (check_phone fd v)) = emailError (fst v)"
  "phoneError (fst (check_phone fd v)) =
     (if trim (phone fd) = [] then Some (required_msg ''Telefone'') else if \<not> validatePhone (phone fd) then Some (invalid_msg ''Telefone'') else phoneError (fst v))"
  "birthDateError (fst (check_phone fd v)) = birthDateError (fst v)"
  "countryError (fst (check_phone fd v)) = countryError (fst v)"
  "bioError (fst (check_phone fd v)) = bioError (fst v)"
  "snd (check_phone fd v) = (snd v \<and> \<not> (trim (phone fd) = [] \<or> \<not> validatePhone (phone fd)))"
  by (simp_all add: check_phone_def split_def)

lemma check_birthDate_sel:
  "firstNameError (fst (check_birthDate today fd v)) = firstNameError (fst v)"
  "lastNameError (fst (check_birthDate today fd v)) = lastNameError (fst v)"
  "emailError (fst (check_birthDate today fd v)) = emailError (fst v)"
  "phoneError (fst (check_birthDate today fd v)) = phoneError (fst v)"
  "birthDateError (fst (check_birthDate today fd v)) =
     (if less_num (age today fd) (Some 13) then Some (min_age_msg) else if less_num (Some 120) (age today fd) then Some (birth_invalid_msg) else birthDateError (fst v))"
  "countryError (fst (check_birthDate today fd v)) = countryError (fst v)"
  "bioError (fst (check_birthDate today fd v)) = bioError (fst v)"
  "snd (check_birthDate today fd v) = (snd v \<and> \<not> (less_num (age today fd) (Some 13) \<or> less_num (Some 120) (age today fd)))"
  by (simp_all add: check_birthDate_def split_def)

lemma check_country_sel:
  "firstNameError (fst (check_country fd v)) = firstNameError (fst v)"
  "lastNameError (fst (check_country fd v)) = lastNameError (fst v)"
  "emailError (fst (check_country fd v)) = emailError (fst v)"
  "phoneError (fst (check_country fd v)) = phoneError (fst v)"
  "birthDateError (fst (check_country fd v)) = birthDateError (fst v)"
  "countryError (fst (check_country fd v)) =
     (if country fd = [] then Some (country_msg) else countryError (fst v))"
  "bioError (fst (check_country fd v)) = bioError (fst v)"
  "snd (check_country fd v) = (snd v \<and> \<not> (country fd = []))"
  by (simp_all add: check_country_def split_def)

lemma check_bio_sel:
  "firstNameError (fst (check_bio fd v)) = firstNameError (fst v)"
  "lastNameError (fst (check_bio fd v)) = lastNameError (fst v)"
  "emailError (fst (check_bio fd v)) = emailError (fst v)"
  "phoneError (fst (check_bio fd v)) = phoneError (fst v)"
  "birthDateError (fst (check_bio fd v)) = birthDateError (fst v)"
  "countryError (fst (check_bio fd v)) = countryError (fst v)"
  "bioError (fst (check_bio fd v)) =
     (if 500 < length (bio fd) then Some (bio_msg) else bioError (fst v))"
  "snd (check_bio fd v) = (snd v \<and> \<not> (500 < length (bio fd)))"
  by (simp_all add: check_bio_def split_def)


lemmas check_sel = check_firstName_sel check_lastName_sel check_email_sel check_phone_sel
  check_birthDate_sel check_country_sel check_bio_sel

lemma validateForm_eq:
  "validateForm today st =
     (snd (check_bio (formData st) (check_country (formData st)
        (check_birthDate today (formData st) (check_phone (formData st)
        (check_email (formData st) (check_lastName (formData st)
        (check_firstName (formData st) (noErrors, True)))))))),
      st\<lparr>errors := fst (check_bio (formData st) (check_country (formData st)
        (check_birthDate today (formData st) (check_phone (formData st)
        (check_email (formData st) (check_lastName (formData st)
        (check_firstName (formData st) (noErrors, True))))))))\<rparr>)"
  by (simp add: validateForm_def Let_def)

lemma validateForm_frame:
  "formData (snd (validateForm today st)) = formData st"
  "showDatePicker (snd (validateForm today st)) = showDatePicker st"
  "isLoading (snd (validateForm today st)) = isLoading st"
  by (simp_all add: validateForm_eq)

lemma validateForm_errors:
  "firstNameError (errors (snd (validateForm today st))) =
     (if trim (firstName (formData st)) = [] then Some (required_msg ''Nome'')
      else if length (firstName (formData st)) < 2 then Some (min_length_msg ''Nome'' ''2'')
      else None)"
  "lastNameError (errors (snd (validateForm today st))) =
     (if trim (lastName (formData st)) = [] then Some (required_msg ''Sobrenome'')
      else if length (lastName (formData st)) < 2 then Some (min_length_msg ''Sobrenome'' ''2'')
      else None)"
  "emailError (errors (snd (validateForm today st))) =
     (if trim (email (formData st)) = [] then Some (required_msg ''Email'')
      else if \<not> validateEmail (email (formData st)) then Some (invalid_msg ''Email'')
      else None)"
  "phoneError (errors (snd (validateForm today st))) =
     (if trim (phone (formData st)) = [] then Some (required_msg ''Telefone'')
      else if \<not> validatePhone (phone (formData st)) then Some (invalid_msg ''Telefone'')
      else None)"
  "birthDateError (errors (snd (validateForm today st))) =
     (if less_num (age today (formData st)) (Some 13) then Some min_age_msg
      else if less_num (Some 120) (age today (formData st)) then Some birth_invalid_msg
      else None)"
  "countryError (errors (snd (validateForm today st))) =
     (if country (formData st) = [] then Some country_msg else None)"
  "bioError (errors (snd (validateForm today st))) =
     (if 500 < length (bio (formData st)) then Some bio_msg else None)"
  by (simp_all add: validateForm_eq check_sel noErrors_def)

lemma validateForm_fst:
  "fst (validateForm today st) \<longleftrightarrow>
     \<not> (trim (firstName (formData st)) = [] \<or> length (firstName (formData st)) < 2)
     \<and> \<not> (trim (lastName (formData st)) = [] \<or> length (lastName (formData st)) < 2)
     \<and> \<not> (trim (email (formData st)) = [] \<or> \<not> validateEmail (email (formData st)))
     \<and> \<not> (trim (phone (formData st)) = [] \<or> \<not> validatePhone (phone (formData st)))
     \<and> \<not> (less_num (age today (formData st)) (Some 13) \<or> less_num (Some 120) (age today (formData st)))
     \<and> country (formData st) \<noteq> []
     \<and> \<not> 500 < length (bio (formData st))"
  by (simp add: validateForm_eq check_sel)

lemma noErrors_iff:
  "e = noErrors \<longleftrightarrow>
     firstNameError e = None \<and> lastNameError e = None \<and> emailError e = None
     \<and> phoneError e = None \<and> birthDateError e = None \<and> countryError e = None
     \<and> bioError e = None"
  by (cases e) (simp add: noErrors_def)

lemma exists_split_iff:
  "(\<exists>area prefix suffix. d = area @ prefix @ suffix \<and> length area = 2
      \<and> (length prefix = 4 \<or> length prefix = 5) \<and> length suffix = (4::nat))
   \<longleftrightarrow> length d = 10 \<or> length d = 11"
proof
  assume "\<exists>area prefix suffix. d = area @ prefix @ suffix \<and> length area = 2
      \<and> (length prefix = 4 \<or> length prefix = 5) \<and> length suffix = (4::nat)"
  then show "length d = 10 \<or> length d = 11" by auto
next
  assume len: "length d = 10 \<or> length d = 11"
  let ?n = "length d - 6"
  have "d = take 2 d @ take ?n (drop 2 d) @ drop (2 + ?n) d"
    by (simp only: take_drop_parts)
  moreover have "length (take 2 d) = 2" using len by auto
  moreover have "length (take ?n (drop 2 d)) = 4 \<or> length (take ?n (drop 2 d)) = 5"
    using len by auto
  moreover have "length (drop (2 + ?n) d) = 4" using len by auto
  ultimately show "\<exists>area prefix suffix. d = area @ prefix @ suffix \<and> length area = 2
      \<and> (length prefix = 4 \<or> length prefix = 5) \<and> length suffix = (4::nat)"
    by blast
qed

section \<open>Facts about the handlers\<close>

lemma age_year: "year today = year today' \<Longrightarrow> age today fd = age today' fd"
  by (simp add: age_def)

lemma check_birthDate_year:
  "year today = year today' \<Longrightarrow> check_birthDate today fd = check_birthDate today' fd"
  unfolding check_birthDate_def by (simp only: age_year [of today today'])

lemma set_field_typed: "has_type fld v \<Longrightarrow> \<exists>fd'. set_field fld v fd = Some fd'"
  by (cases fld; cases v) simp_all

lemma set_field_get:
  "set_field fld v fd = Some fd' \<Longrightarrow> get_field fd' fld = v"
  by (cases fld; cases v) auto

lemma set_field_other:
  "set_field fld v fd = Some fd' \<Longrightarrow> g \<noteq> fld \<Longrightarrow> get_field fd' g = get_field fd g"
  by (cases fld; cases v; cases g) auto

lemma clear_error_same: "error_of (clear_error fld e) fld = None"
  by (cases fld) simp_all

lemma clear_error_other: "g \<noteq> fld \<Longrightarrow> error_of (clear_error fld e) g = error_of e g"
  by (cases fld; cases g) simp_all

lemma validateForm_login_errors:
  "emailMessage (loginErrors (snd (validateForm_login ls))) =
     (if trim (loginEmail ls) = [] then required_msg ''Email''
      else if \<not> validateEmail (loginEmail ls) then invalid_msg ''Email'' else [])"
  "passwordMessage (loginErrors (snd (validateForm_login ls))) =
     (if trim (loginPassword ls) = [] then password_required_msg
      else if length (loginPassword ls) < 6 then min_length_msg ''Senha'' ''6'' else [])"
  by (simp_all add: validateForm_login_def Let_def)

lemma validateForm_login_fst:
  "fst (validateForm_login ls) \<longleftrightarrow>
     \<not> (trim (loginEmail ls) = [] \<or> \<not> validateEmail (loginEmail ls))
     \<and> \<not> (trim (loginPassword ls) = [] \<or> length (loginPassword ls) < 6)"
  by (simp add: validateForm_login_def Let_def)

lemma validateForm_login_snd:
  "snd (validateForm_login ls) = ls\<lparr>loginErrors := loginErrors (snd (validateForm_login ls))\<rparr>"
  by (simp add: validateForm_login_def Let_def)

lemma validateForm_snd:
  "snd (validateForm today st) = st\<lparr>errors := errors (snd (validateForm today st))\<rparr>"
  by (simp add: validateForm_eq)

lemma msgs_nonempty:
  "required_msg w \<noteq> []" "min_length_msg w n \<noteq> []" "invalid_msg w \<noteq> []"
  "min_age_msg \<noteq> []" "birth_invalid_msg \<noteq> []" "country_msg \<noteq> []" "bio_msg \<noteq> []"
  "password_required_msg \<noteq> []"
  by (simp_all add: required_msg_def min_length_msg_def invalid_msg_def min_age_msg_def
      birth_invalid_msg_def country_msg_def bio_msg_def password_required_msg_def
      e_acute_def a_acute_def i_acute_def o_acute_def str_def)

lemma validateForm_noErrors:
  "fst (validateForm today st) \<longleftrightarrow> errors (snd (validateForm today st)) = noErrors"
  unfolding noErrors_iff validateForm_errors validateForm_fst by auto

lemma login_noErrors_iff:
  "e = \<lparr>emailMessage = [], passwordMessage = []\<rparr> \<longleftrightarrow> emailMessage e = [] \<and> passwordMessage e = []"
  by (cases e) simp

lemma validateForm_login_noErrors:
  "fst (validateForm_login ls) \<longleftrightarrow>
     loginErrors (snd (validateForm_login ls)) = \<lparr>emailMessage = [], passwordMessage = []\<rparr>"
  unfolding login_noErrors_iff validateForm_login_errors validateForm_login_fst
  by (auto simp: msgs_nonempty)

lemma handleSubmit_invalid:
  assumes "\<not> fst (validateForm today st)"
  shows "handleSubmit_start today st = (snd (validateForm today st), [form_error_alert], None)"
    and "handleSubmit today onSubmit st = (snd (validateForm today st), [form_error_alert])"
  using assms by (simp_all add: handleSubmit_def handleSubmit_start_def split_def)


lemma handleLogin_invalid:
  assumes "\<not> fst (validateForm_login ls)"
  shows "handleLogin_start ls = (snd (validateForm_login ls), [], None)"
    and "handleLogin onLogin ls = (snd (validateForm_login ls), [])"
  using assms by (simp_all add: handleLogin_def handleLogin_start_def split_def)




lemma validateForm_pair:
  "validateForm today st = (fst (validateForm today st), st\<lparr>errors := errors (snd (validateForm today st))\<rparr>)"
  by (metis prod.collapse validateForm_snd)

lemma validateForm_login_pair:
  "validateForm_login ls =
     (fst (validateForm_login ls), ls\<lparr>loginErrors := loginErrors (snd (validateForm_login ls))\<rparr>)"
  by (metis prod.collapse validateForm_login_snd)

lemma blank_or_bad_email:
  "trim e = [] \<or> \<not> validateEmail e \<longleftrightarrow> e = [] \<or> \<not> validateEmail e"
  using validateEmail_not_blank [of e] by (auto simp: trim_def)

lemma blank_or_bad_phone:
  "trim p = [] \<or> \<not> validatePhone p \<longleftrightarrow>
     p = [] \<or> \<not> (length (strip_non_digits p) = 10 \<or> length (strip_non_digits p) = 11)"
  using validatePhone_not_blank [of p] by (auto simp: trim_def validatePhone_iff)

lemma flagged_nonempty:
  "error_of (errors (snd (validateForm today st))) fld = Some m \<Longrightarrow> m \<noteq> []"
  by (cases fld) (auto simp: validateForm_errors msgs_nonempty split: if_splits)

lemma min_age_not_invalid: "birth_invalid_msg \<noteq> min_age_msg"
  by (simp add: birth_invalid_msg_def min_age_msg_def str_def)

section \<open>The claims\<close>

text \<open>
  C1 (as amended). When every field of the form satisfies its rule (both names non-empty
  after trim and at least 2 long, email and phone matching their patterns, the age in
  [13, 120], a country chosen, the bio at most 500 long), \<open>validateForm\<close> returns true and
  stores no error; so does the login's \<open>validateForm\<close> when the email matches and the
  password is non-empty after trim and at least 6 long. Each of the two returns true if
  and only if it stores no error.
\<close>

theorem valid_form_accepted:
  "(trim (firstName (formData st)) \<noteq> [] \<and> 2 \<le> length (firstName (formData st))
      \<and> trim (lastName (formData st)) \<noteq> [] \<and> 2 \<le> length (lastName (formData st))
      \<and> validateEmail (email (formData st)) \<and> validatePhone (phone (formData st))
      \<and> (\<exists>a. age today (formData st) = Some a \<and> 13 \<le> a \<and> a \<le> 120)
      \<and> country (formData st) \<noteq> [] \<and> length (bio (formData st)) \<le> 500
    \<longrightarrow> validateForm today st = (True, st\<lparr>errors := noErrors\<rparr>))
   \<and> (fst (validateForm today st) \<longleftrightarrow> errors (snd (validateForm today st)) = noErrors)
   \<and> (validateEmail (loginEmail ls) \<and> trim (loginPassword ls) \<noteq> []
      \<and> 6 \<le> length (loginPassword ls)
    \<longrightarrow> validateForm_login ls
          = (True, ls\<lparr>loginErrors := \<lparr>emailMessage = [], passwordMessage = []\<rparr>\<rparr>))
   \<and> (fst (validateForm_login ls) \<longleftrightarrow>
        loginErrors (snd (validateForm_login ls)) = \<lparr>emailMessage = [], passwordMessage = []\<rparr>)"
proof (intro conjI impI)
  assume h: "trim (firstName (formData st)) \<noteq> [] \<and> 2 \<le> length (firstName (formData st))
      \<and> trim (lastName (formData st)) \<noteq> [] \<and> 2 \<le> length (lastName (formData st))
      \<and> validateEmail (email (formData st)) \<and> validatePhone (phone (formData st))
      \<and> (\<exists>a. age today (formData st) = Some a \<and> 13 \<le> a \<and> a \<le> 120)
      \<and> country (formData st) \<noteq> [] \<and> length (bio (formData st)) \<le> 500"
  then have e: "trim (email (formData st)) \<noteq> []" and p: "trim (phone (formData st)) \<noteq> []"
    by (simp_all add: validateEmail_not_blank validatePhone_not_blank)
  from h obtain a where a: "age today (formData st) = Some a" "13 \<le> a" "a \<le> 120" by blast
  from h e p a have ok: "fst (validateForm today st)"
    by (simp add: validateForm_fst)
  then have "errors (snd (validateForm today st)) = noErrors"
    by (simp add: validateForm_noErrors)
  with ok show "validateForm today st = (True, st\<lparr>errors := noErrors\<rparr>)"
    using validateForm_pair [of today st] by simp
next
  show "fst (validateForm today st) \<longleftrightarrow> errors (snd (validateForm today st)) = noErrors"
    by (rule validateForm_noErrors)
next
  assume h: "validateEmail (loginEmail ls) \<and> trim (loginPassword ls) \<noteq> []
      \<and> 6 \<le> length (loginPassword ls)"
  then have "trim (loginEmail ls) \<noteq> []" by (simp add: validateEmail_not_blank)
  with h have ok: "fst (validateForm_login ls)"
    by (simp add: validateForm_login_fst)
  then have "loginErrors (snd (validateForm_login ls)) = \<lparr>emailMessage = [], passwordMessage = []\<rparr>"
    by (simp add: validateForm_login_noErrors)
  with ok show "validateForm_login ls
          = (True, ls\<lparr>loginErrors := \<lparr>emailMessage = [], passwordMessage = []\<rparr>\<rparr>)"
    using validateForm_login_pair [of ls] by simp
next
  show "fst (validateForm_login ls) \<longleftrightarrow>
        loginErrors (snd (validateForm_login ls)) = \<lparr>emailMessage = [], passwordMessage = []\<rparr>"
    by (rule validateForm_login_noErrors)
qed

text \<open>The sample form and a login with a password of six letters satisfy every rule.\<close>

theorem valid_form_accepted_witness:
  "validateForm sample_today sample_state = (True, sample_state\<lparr>errors := noErrors\<rparr>)
   \<and> validateForm_login (sample_login ''ana@x.br'' ''abcdef'')
       = (True, (sample_login ''ana@x.br'' ''abcdef'')
            \<lparr>loginErrors := \<lparr>emailMessage = [], passwordMessage = []\<rparr>\<rparr>)"
proof -
  let ?fd = "formData sample_state"
  let ?ls = "sample_login ''ana@x.br'' ''abcdef''"
  have f: "trim (firstName ?fd) \<noteq> []" "2 \<le> length (firstName ?fd)"
    "trim (lastName ?fd) \<noteq> []" "2 \<le> length (lastName ?fd)"
    "validateEmail (email ?fd)" "validatePhone (phone ?fd)"
    "country ?fd \<noteq> []" "length (bio ?fd) \<le> 500"
    by code_simp+
  have a: "age sample_today ?fd = Some 26" "(13::int) \<le> 26" "(26::int) \<le> 120"
    by (simp_all add: age_def sample_state_def sample_form_def sample_today_def)
  have l: "validateEmail (loginEmail ?ls)" "trim (loginPassword ?ls) \<noteq> []"
    "6 \<le> length (loginPassword ?ls)"
    by code_simp+
  from f a l valid_form_accepted [of sample_state sample_today ?ls]
  show ?thesis by blast
qed

text \<open>
  The claim as stated fails: a login password of six spaces has length 6, the email
  matches, and the login's \<open>validateForm\<close> returns false with the "required" message.
\<close>

theorem blank_password_counterexample:
  "validateEmail (loginEmail (sample_login ''ana@x.br'' ''      ''))
   \<and> 6 \<le> length (loginPassword (sample_login ''ana@x.br'' ''      ''))
   \<and> \<not> fst (validateForm_login (sample_login ''ana@x.br'' ''      ''))
   \<and> passwordMessage (loginErrors (snd (validateForm_login (sample_login ''ana@x.br'' ''      ''))))
       = password_required_msg"
  by code_simp

text \<open>
  C2 (as amended). After \<open>validateForm\<close> a field has an error if and only if its value
  fails its rule of the specification's table, and every stored message is non-empty;
  the fields without a rule never have one. For the login the same holds with the empty
  string as "no error", the password's rule being: empty after trim, or shorter than 6.
\<close>

theorem flagged_iff_rule_fails:
  "(error_of (errors (snd (validateForm today st))) fld \<noteq> None
      \<longleftrightarrow> spec_fails today (formData st) fld)
   \<and> (\<forall>m. error_of (errors (snd (validateForm today st))) fld = Some m \<longrightarrow> m \<noteq> [])
   \<and> (emailMessage (loginErrors (snd (validateForm_login ls))) \<noteq> []
      \<longleftrightarrow> spec_fails_login_email (loginEmail ls))
   \<and> (passwordMessage (loginErrors (snd (validateForm_login ls))) \<noteq> []
      \<longleftrightarrow> trim (loginPassword ls) = [] \<or> length (loginPassword ls) < 6)"
proof (intro conjI)
  show "error_of (errors (snd (validateForm today st))) fld \<noteq> None
      \<longleftrightarrow> spec_fails today (formData st) fld"
  proof (cases fld)
    case Email
    then show ?thesis
      using blank_or_bad_email [of "email (formData st)"] by (auto simp: validateForm_errors)
  next
    case Phone
    then show ?thesis
      using blank_or_bad_phone [of "phone (formData st)"] by (auto simp: validateForm_errors)
  qed (simp_all add: validateForm_errors)
  show "\<forall>m. error_of (errors (snd (validateForm today st))) fld = Some m \<longrightarrow> m \<noteq> []"
    by (cases fld) (auto simp: validateForm_errors msgs_nonempty split: if_splits)
  show "emailMessage (loginErrors (snd (validateForm_login ls))) \<noteq> []
      \<longleftrightarrow> spec_fails_login_email (loginEmail ls)"
    using blank_or_bad_email [of "loginEmail ls"]
    by (auto simp: validateForm_login_errors spec_fails_login_email_def msgs_nonempty)
  show "passwordMessage (loginErrors (snd (validateForm_login ls))) \<noteq> []
      \<longleftrightarrow> trim (loginPassword ls) = [] \<or> length (loginPassword ls) < 6"
    by (auto simp: validateForm_login_errors msgs_nonempty)
qed

text \<open>
  The sample form with the email \<open>not-an-email\<close>: the email fails its rule and is flagged
  with the invalid-format message, the phone passes its rule and has no error. A login
  password of three letters is flagged.
\<close>

theorem flagged_iff_rule_fails_witness:
  "spec_fails sample_today (sample_form\<lparr>email := str ''not-an-email''\<rparr>) Email
   \<and> error_of (errors (snd (validateForm sample_today
        (sample_state\<lparr>formData := sample_form\<lparr>email := str ''not-an-email''\<rparr>\<rparr>)))) Email \<noteq> None
   \<and> \<not> spec_fails sample_today (sample_form\<lparr>email := str ''not-an-email''\<rparr>) Phone
   \<and> error_of (errors (snd (validateForm sample_today
        (sample_state\<lparr>formData := sample_form\<lparr>email := str ''not-an-email''\<rparr>\<rparr>)))) Phone = None
   \<and> passwordMessage (loginErrors (snd (validateForm_login (sample_login ''ana@x.br'' ''abc'')))) \<noteq> []"
proof -
  let ?fd = "sample_form\<lparr>email := str ''not-an-email''\<rparr>"
  let ?st = "sample_state\<lparr>formData := ?fd\<rparr>"
  let ?ls = "sample_login ''ana@x.br'' ''abc''"
  have fd: "formData ?st = ?fd" by simp
  have a: "spec_fails sample_today ?fd Email" by code_simp
  have b: "\<not> spec_fails sample_today ?fd Phone" by code_simp
  have c: "length (loginPassword ?ls) < 6" by code_simp
  from a b c flagged_iff_rule_fails [of sample_today ?st Email ?ls]
    flagged_iff_rule_fails [of sample_today ?st Phone ?ls]
  show ?thesis unfolding fd by blast
qed

text \<open>
  The claim as stated fails: a login password of seven spaces is not empty and not
  shorter than 6, so it passes the rule of the table, and it is flagged.
\<close>

theorem spaces_password_counterexample:
  "\<not> spec_fails_login_password (loginPassword (sample_login ''ana@x.br'' ''       ''))
   \<and> passwordMessage (loginErrors (snd (validateForm_login (sample_login ''ana@x.br'' ''       ''))))
       \<noteq> []"
  by code_simp

text \<open>
  C3 (as amended). \<open>validateForm\<close> is a function of the form data and of the year the clock
  shows: two calls with the same form data in the same calendar year return the same
  verdict and store the same errors, whatever else the component state holds and
  whatever the month and the day are.
\<close>

theorem validateForm_deterministic:
  assumes "formData st = formData st'" and "year today = year today'"
  shows "fst (validateForm today st) = fst (validateForm today' st')
     \<and> errors (snd (validateForm today st)) = errors (snd (validateForm today' st'))"
  using assms by (simp add: validateForm_eq check_birthDate_year [of today today'])

theorem validateForm_deterministic_witness:
  "fst (validateForm sample_today (born 2014))
     = fst (validateForm (sample_today\<lparr>month := 0, day := 1\<rparr>) ((born 2014)\<lparr>isLoading := True\<rparr>))
   \<and> errors (snd (validateForm sample_today (born 2014)))
     = errors (snd (validateForm (sample_today\<lparr>month := 0, day := 1\<rparr>) ((born 2014)\<lparr>isLoading := True\<rparr>)))"
proof -
  have a: "formData (born 2014) = formData ((born 2014)\<lparr>isLoading := True\<rparr>)" by simp
  have b: "year sample_today = year (sample_today\<lparr>month := 0, day := 1\<rparr>)" by simp
  show ?thesis by (rule validateForm_deterministic [OF a b])
qed

text \<open>
  The claim as stated fails: the same form data (born in 2014) is rejected when the
  clock shows 2026 and accepted when it shows 2027.
\<close>

theorem validateForm_clock_counterexample:
  "\<not> fst (validateForm \<lparr>year = 2026, month = 11, day = 31\<rparr> (born 2014))
   \<and> fst (validateForm \<lparr>year = 2027, month = 0, day = 1\<rparr> (born 2014))
   \<and> errors (snd (validateForm \<lparr>year = 2026, month = 11, day = 31\<rparr> (born 2014)))
       \<noteq> errors (snd (validateForm \<lparr>year = 2027, month = 0, day = 1\<rparr> (born 2014)))"
  by code_simp

text \<open>
  C4. For every field and every value of the field's type, \<open>updateFormData\<close> replaces that
  field's value in the form data (a read of the field gives the new value, every other
  field reads as before); an error shown for the field is removed (after the call the
  field has no truthy error, and no entry at all when its message was non-empty, as
  every message \<open>validateForm\<close> stores is), every other error is left as it is, nothing
  is validated again, and the rest of the component state is untouched.
\<close>

theorem updateFormData_frame:
  assumes "has_type fld v"
  shows "\<exists>st'. updateFormData fld v st = Some st'
     \<and> get_field (formData st') fld = v
     \<and> (\<forall>g. g \<noteq> fld \<longrightarrow> get_field (formData st') g = get_field (formData st) g)
     \<and> \<not> truthy (error_of (errors st') fld)
     \<and> ((\<forall>m. error_of (errors st) fld = Some m \<longrightarrow> m \<noteq> []) \<longrightarrow>
          error_of (errors st') fld = None)
     \<and> (\<forall>g. g \<noteq> fld \<longrightarrow> error_of (errors st') g = error_of (errors st) g)
     \<and> showDatePicker st' = showDatePicker st
     \<and> isLoading st' = isLoading st"
proof -
  from set_field_typed [OF assms] obtain fd' where fd': "set_field fld v (formData st) = Some fd'"
    by blast
  let ?st' = "if truthy (error_of (errors st) fld)
              then st\<lparr>formData := fd', errors := clear_error fld (errors st)\<rparr>
              else st\<lparr>formData := fd'\<rparr>"
  have upd: "updateFormData fld v st = Some ?st'"
    by (simp add: updateFormData_def fd')
  have fd: "formData ?st' = fd'" by simp
  have "get_field (formData ?st') fld = v"
    unfolding fd using fd' by (rule set_field_get)
  moreover have "\<forall>g. g \<noteq> fld \<longrightarrow> get_field (formData ?st') g = get_field (formData st) g"
    unfolding fd using fd' by (blast intro: set_field_other)
  moreover have "\<not> truthy (error_of (errors ?st') fld)"
    by (simp add: clear_error_same)
  moreover have "(\<forall>m. error_of (errors st) fld = Some m \<longrightarrow> m \<noteq> []) \<longrightarrow>
      error_of (errors ?st') fld = None"
    by (cases "error_of (errors st) fld") (simp_all add: clear_error_same)
  moreover have "\<forall>g. g \<noteq> fld \<longrightarrow> error_of (errors ?st') g = error_of (errors st) g"
    by (simp add: clear_error_other)
  moreover have "showDatePicker ?st' = showDatePicker st" "isLoading ?st' = isLoading st"
    by simp_all
  ultimately show ?thesis using upd by blast
qed

text \<open>
  On the state the sample form reaches when it is validated with a blank email and an
  empty country: typing an email replaces the email only, removes the email's error and
  leaves the country's error, although nothing has validated the new email.
\<close>

theorem updateFormData_frame_witness:
  "has_type Email (VString (str ''x''))
   \<and> (\<exists>st'. updateFormData Email (VString (str ''x''))
          (snd (validateForm sample_today
             (sample_state\<lparr>formData := sample_form\<lparr>email := str '' '', country := []\<rparr>\<rparr>))) = Some st'
        \<and> get_field (formData st') Email = VString (str ''x'')
        \<and> get_field (formData st') Country = VString []
        \<and> error_of (errors st') Email = None
        \<and> error_of (errors st') Country = Some country_msg)"
proof -
  let ?st = "snd (validateForm sample_today
             (sample_state\<lparr>formData := sample_form\<lparr>email := str '' '', country := []\<rparr>\<rparr>))"
  have t: "has_type Email (VString (str ''x''))" by simp
  have a: "\<forall>m. error_of (errors ?st) Email = Some m \<longrightarrow> m \<noteq> []"
    using flagged_nonempty by blast
  have b: "error_of (errors ?st) Country = Some country_msg" by code_simp
  have c: "get_field (formData ?st) Country = VString []" by code_simp
  have d: "Country \<noteq> Email" by simp
  from updateFormData_frame [OF t, of ?st] a b c d show ?thesis
    by (metis t)
qed

text \<open>
  C5. When validation fails, a submit makes no submission attempt: \<open>handleSubmit\<close> returns
  at once with nothing pending, neither awaits the timer nor calls \<open>onSubmit\<close>, stores the
  errors of the validation (there is at least one) where the view reads them, and leaves
  the loading flag and the form data as they were. \<open>handleLogin\<close> does the same with
  \<open>onLogin\<close>.
\<close>

theorem invalid_submit_stays_idle:
  "(\<not> fst (validateForm today st) \<longrightarrow>
      handleSubmit_start today st
        = (st\<lparr>errors := errors (snd (validateForm today st))\<rparr>, [form_error_alert], None)
      \<and> handleSubmit today onSubmit st
        = (st\<lparr>errors := errors (snd (validateForm today st))\<rparr>, [form_error_alert])
      \<and> calls (snd (handleSubmit today onSubmit st)) = 0
      \<and> sends (snd (handleSubmit today onSubmit st)) = 0
      \<and> errors (fst (handleSubmit today onSubmit st)) \<noteq> noErrors
      \<and> isLoading (fst (handleSubmit today onSubmit st)) = isLoading st
      \<and> formData (fst (handleSubmit today onSubmit st)) = formData st)
   \<and> (\<not> fst (validateForm_login ls) \<longrightarrow>
      handleLogin_start ls
        = (ls\<lparr>loginErrors := loginErrors (snd (validateForm_login ls))\<rparr>, [], None)
      \<and> handleLogin onLogin ls
        = (ls\<lparr>loginErrors := loginErrors (snd (validateForm_login ls))\<rparr>, [])
      \<and> loginErrors (fst (handleLogin onLogin ls)) \<noteq> \<lparr>emailMessage = [], passwordMessage = []\<rparr>
      \<and> loginLoading (fst (handleLogin onLogin ls)) = loginLoading ls
      \<and> loginEmail (fst (handleLogin onLogin ls)) = loginEmail ls
      \<and> loginPassword (fst (handleLogin onLogin ls)) = loginPassword ls)"
proof (intro conjI impI)
  assume inv: "\<not> fst (validateForm today st)"
  note h = handleSubmit_invalid [OF inv] validateForm_snd [symmetric]
  show "handleSubmit_start today st
        = (st\<lparr>errors := errors (snd (validateForm today st))\<rparr>, [form_error_alert], None)"
    by (simp only: h)
  show "handleSubmit today onSubmit st
        = (st\<lparr>errors := errors (snd (validateForm today st))\<rparr>, [form_error_alert])"
    by (simp only: h)
  show "calls (snd (handleSubmit today onSubmit st)) = 0"
    by (simp add: h(2) calls_def form_error_alert_def)
  show "sends (snd (handleSubmit today onSubmit st)) = 0"
    by (simp add: h(2) sends_def form_error_alert_def)
  show "errors (fst (handleSubmit today onSubmit st)) \<noteq> noErrors"
    using inv by (simp add: h(2) validateForm_noErrors)
  show "isLoading (fst (handleSubmit today onSubmit st)) = isLoading st"
    by (simp add: h(2) validateForm_frame)
  show "formData (fst (handleSubmit today onSubmit st)) = formData st"
    by (simp add: h(2) validateForm_frame)
next
  assume inv: "\<not> fst (validateForm_login ls)"
  note h = handleLogin_invalid [OF inv] validateForm_login_snd [symmetric]
  show "handleLogin_start ls
        = (ls\<lparr>loginErrors := loginErrors (snd (validateForm_login ls))\<rparr>, [], None)"
    by (simp only: h)
  show "handleLogin onLogin ls
        = (ls\<lparr>loginErrors := loginErrors (snd (validateForm_login ls))\<rparr>, [])"
    by (simp only: h)
  show "loginErrors (fst (handleLogin onLogin ls)) \<noteq> \<lparr>emailMessage = [], passwordMessage = []\<rparr>"
    using inv by (simp add: h(2) validateForm_login_noErrors)
  show "loginLoading (fst (handleLogin onLogin ls)) = loginLoading ls"
    by (simp add: h(2)) (simp add: validateForm_login_def Let_def)
  show "loginEmail (fst (handleLogin onLogin ls)) = loginEmail ls"
    by (simp add: h(2)) (simp add: validateForm_login_def Let_def)
  show "loginPassword (fst (handleLogin onLogin ls)) = loginPassword ls"
    by (simp add: h(2)) (simp add: validateForm_login_def Let_def)
qed

text \<open>
  The sample form with an empty country, and a login with a password of three letters:
  both are rejected, no callback is called and nothing is loading afterwards.
\<close>

theorem invalid_submit_stays_idle_witness:
  "\<not> fst (validateForm sample_today (sample_state\<lparr>formData := sample_form\<lparr>country := []\<rparr>\<rparr>))
   \<and> calls (snd (handleSubmit sample_today (Some (\<lambda>fd. Returns))
        (sample_state\<lparr>formData := sample_form\<lparr>country := []\<rparr>\<rparr>))) = 0
   \<and> isLoading (fst (handleSubmit sample_today (Some (\<lambda>fd. Returns))
        (sample_state\<lparr>formData := sample_form\<lparr>country := []\<rparr>\<rparr>))) = False
   \<and> \<not> fst (validateForm_login (sample_login ''ana@x.br'' ''abc''))
   \<and> handleLogin (Some (\<lambda>e p. Returns)) (sample_login ''ana@x.br'' ''abc'')
       = ((sample_login ''ana@x.br'' ''abc'')\<lparr>loginErrors :=
            loginErrors (snd (validateForm_login (sample_login ''ana@x.br'' ''abc'')))\<rparr>, [])"
proof -
  let ?st = "sample_state\<lparr>formData := sample_form\<lparr>country := []\<rparr>\<rparr>"
  let ?ls = "sample_login ''ana@x.br'' ''abc''"
  have a: "\<not> fst (validateForm sample_today ?st)" by code_simp
  have b: "\<not> fst (validateForm_login ?ls)" by code_simp
  have c: "isLoading ?st = False" by (simp add: sample_state_def)
  from a b c invalid_submit_stays_idle [of sample_today ?st "Some (\<lambda>fd. Returns)" ?ls "Some (\<lambda>e p. Returns)"]
  show ?thesis by metis
qed




text \<open>
  C7. For every phone string, \<open>validateForm\<close> flags the phone field exactly when the string
  is empty after trim, or when the digits left after stripping every non-digit do not form
  a local-format number: a two-digit area code, a four- or five-digit prefix and a
  four-digit suffix (ten or eleven digits).
\<close>

theorem phone_flagged_iff:
  "phoneError (errors (snd (validateForm today st))) \<noteq> None \<longleftrightarrow>
     trim (phone (formData st)) = []
     \<or> \<not> (\<exists>area prefix suffix.
           strip_non_digits (phone (formData st)) = area @ prefix @ suffix
           \<and> length area = 2 \<and> (length prefix = 4 \<or> length prefix = 5)
           \<and> length suffix = 4)"
  unfolding exists_split_iff
  by (simp add: validateForm_errors validatePhone_iff)

text \<open>
  The formatted sample number is not flagged; a number of nine digits is.
\<close>

theorem phone_flagged_iff_witness:
  "trim (phone (formData sample_state)) \<noteq> []
   \<and> phoneError (errors (snd (validateForm sample_today sample_state))) = None
   \<and> phoneError (errors (snd (validateForm sample_today
        (sample_state\<lparr>formData := sample_form\<lparr>phone := str ''99999-9999''\<rparr>\<rparr>)))) \<noteq> None"
proof -
  have a: "trim (phone (formData sample_state)) \<noteq> []" by code_simp
  have b: "\<exists>area prefix suffix.
           strip_non_digits (phone (formData sample_state)) = area @ prefix @ suffix
           \<and> length area = 2 \<and> (length prefix = 4 \<or> length prefix = 5)
           \<and> length suffix = 4"
  proof (intro exI conjI)
    show "strip_non_digits (phone (formData sample_state)) = str ''11'' @ str ''99999'' @ str ''9999''"
      by code_simp
    show "length (str ''11'') = 2" by code_simp
    show "length (str ''99999'') = 4 \<or> length (str ''99999'') = 5" by code_simp
    show "length (str ''9999'') = 4" by code_simp
  qed
  let ?s = "sample_state\<lparr>formData := sample_form\<lparr>phone := str ''99999-9999''\<rparr>\<rparr>"
  have c: "strip_non_digits (phone (formData ?s)) = str ''999999999''" by code_simp
  have d: "\<not> (\<exists>area prefix suffix.
           strip_non_digits (phone (formData ?s)) = area @ prefix @ suffix
           \<and> length area = 2 \<and> (length prefix = 4 \<or> length prefix = 5)
           \<and> length suffix = 4)"
    unfolding c by (auto simp: str_def dest!: arg_cong [where f = length])
  from a b d phone_flagged_iff [of sample_today sample_state] phone_flagged_iff [of sample_today ?s]
  show ?thesis by blast
qed

text \<open>
  C8. The age is the clock's year minus the birth date's year, whatever the months and
  days are, and \<open>validateForm\<close> flags the birth date exactly when this age is less than
  13 or greater than 120: age 12 is flagged as below the minimum age, age 13 is not
  flagged. (The invalid date has no year; its age is \<open>NaN\<close>, which is neither, and it is
  not flagged.)
\<close>

theorem birthDate_flagged_iff:
  "(birthDateError (errors (snd (validateForm today st))) \<noteq> None \<longleftrightarrow>
      less_num (age today (formData st)) (Some 13) \<or> less_num (Some 120) (age today (formData st)))
   \<and> (\<forall>b. birthDate (formData st) = Date b \<longrightarrow>
          age today (formData st) = Some (year today - year b)
          \<and> birthDateError (errors (snd (validateForm today st))) =
              (if year today - year b < 13 then Some min_age_msg
               else if 120 < year today - year b then Some birth_invalid_msg
               else None))
   \<and> (birthDate (formData st) = InvalidDate \<longrightarrow>
          age today (formData st) = None
          \<and> birthDateError (errors (snd (validateForm today st))) = None)
   \<and> (age today (formData st) = Some 12 \<longrightarrow>
          birthDateError (errors (snd (validateForm today st))) = Some min_age_msg)
   \<and> (age today (formData st) = Some 13 \<longrightarrow>
          birthDateError (errors (snd (validateForm today st))) = None)"
  by (cases "birthDate (formData st)") (simp_all add: validateForm_errors age_def)

text \<open>
  In 2026 a birth date of 31 December 2014 has age 12 and is flagged with the minimum-age
  message; one of 31 December 2013 has age 13 and is not flagged.
\<close>

theorem birthDate_flagged_iff_witness:
  "age sample_today (formData (born 2014)) = Some 12
   \<and> birthDateError (errors (snd (validateForm sample_today (born 2014)))) = Some min_age_msg
   \<and> age sample_today (formData (born 2013)) = Some 13
   \<and> birthDateError (errors (snd (validateForm sample_today (born 2013)))) = None"
proof -
  have a: "age sample_today (formData (born 2014)) = Some 12"
    by (simp add: age_def born_def sample_today_def)
  have b: "age sample_today (formData (born 2013)) = Some 13"
    by (simp add: age_def born_def sample_today_def)
  from a b birthDate_flagged_iff [of sample_today "born 2014"]
    birthDate_flagged_iff [of sample_today "born 2013"]
  show ?thesis by blast
qed

text \<open>
  C9. \<open>formatPhone\<close> keeps the digits of its input: stripping the non-digits of
  \<open>formatPhone s\<close> gives the digits of \<open>s\<close>. Ten or eleven digits are laid out as
  \<open>(dd) dddd-dddd\<close> or \<open>(dd) ddddd-dddd\<close>, any other input is returned unchanged. So
  \<open>formatPhone\<close> is idempotent and \<open>validatePhone\<close> does not tell \<open>formatPhone s\<close>
  from \<open>s\<close>.
\<close>

theorem formatPhone_keeps_digits:
  "strip_non_digits (formatPhone s) = strip_non_digits s
   \<and> formatPhone s =
       (if length (strip_non_digits s) = 11 then
          str ''('' @ take 2 (strip_non_digits s) @ str '') ''
            @ take 5 (drop 2 (strip_non_digits s)) @ str ''-'' @ drop 7 (strip_non_digits s)
        else if length (strip_non_digits s) = 10 then
          str ''('' @ take 2 (strip_non_digits s) @ str '') ''
            @ take 4 (drop 2 (strip_non_digits s)) @ str ''-'' @ drop 6 (strip_non_digits s)
        else s)
   \<and> formatPhone (formatPhone s) = formatPhone s
   \<and> validatePhone (formatPhone s) = validatePhone s"
  using strip_formatPhone [of s] formatPhone_eq [of s] formatPhone_idem [of s]
    validatePhone_formatPhone [of s]
  by (intro conjI)

theorem formatPhone_keeps_digits_witness:
  "formatPhone (str ''11 999999999'') = str ''(11) 99999-9999''
   \<and> strip_non_digits (formatPhone (str ''11 999999999'')) = str ''11999999999''
   \<and> formatPhone (str ''(11) 99999-9999'') = str ''(11) 99999-9999''
   \<and> formatPhone (str ''119'') = str ''119''"
proof -
  have a: "strip_non_digits (str ''11 999999999'') = str ''11999999999''" by code_simp
  have b: "strip_non_digits (str ''119'') = str ''119''" by code_simp
  have c: "strip_non_digits (str ''(11) 99999-9999'') = str ''11999999999''" by code_simp
  have l: "length (str ''11999999999'') = 11" "length (str ''119'') = 3" by code_simp+
  have t: "take 2 (str ''11999999999'') = str ''11''"
    "take 5 (drop 2 (str ''11999999999'')) = str ''99999''"
    "drop 7 (str ''11999999999'') = str ''9999''" 
    "str ''('' @ str ''11'' @ str '') '' @ str ''99999'' @ str ''-'' @ str ''9999'' = str ''(11) 99999-9999''"
    by code_simp+
  from formatPhone_keeps_digits [of "str ''11 999999999''"]
    formatPhone_keeps_digits [of "str ''119''"]
    formatPhone_keeps_digits [of "str ''(11) 99999-9999''"]
  show ?thesis
    by (simp only: a b c l t if_True if_False numeral_eq_iff semiring_norm refl simp_thms)
qed

text \<open>
  C10 (as amended). Constructed without initial data, the form's birth date is the date
  the clock shows at construction. \<open>validateForm\<close> reads the clock again: for every
  state whose birth date is still that date, whatever else has been edited, the age is
  the clock's year minus the year of construction (0 when both are the same year), and
  the birth date is flagged as below the minimum age exactly when fewer than thirteen
  new years have passed since construction; then \<open>validateForm\<close> returns false.
\<close>

theorem fresh_form_flagged:
  "birthDate (formData (initialState now None)) = Date now
   \<and> (birthDate (formData st) = Date now \<longrightarrow>
        age today (formData st) = Some (year today - year now)
        \<and> (year today = year now \<longrightarrow> age today (formData st) = Some 0)
        \<and> (birthDateError (errors (snd (validateForm today st))) = Some min_age_msg
             \<longleftrightarrow> year today - year now < 13)
        \<and> (year today - year now < 13 \<longrightarrow> \<not> fst (validateForm today st)))"
  by (simp add: validateForm_errors validateForm_fst age_def initialState_def or_date_def
      min_age_not_invalid)

text \<open>
  The initial state validated on the day of its construction, and the sample form with
  the birth date of the day of construction validated later in the same year.
\<close>

theorem fresh_form_flagged_witness:
  "age sample_today (formData (initialState sample_today None)) = Some 0
   \<and> \<not> fst (validateForm sample_today (initialState sample_today None))
   \<and> birthDateError (errors (snd (validateForm sample_today (initialState sample_today None))))
        = Some min_age_msg
   \<and> \<not> fst (validateForm (sample_today\<lparr>month := 11, day := 31\<rparr>)
        (sample_state\<lparr>formData := sample_form\<lparr>birthDate := Date sample_today\<rparr>\<rparr>))"
proof -
  let ?st = "sample_state\<lparr>formData := sample_form\<lparr>birthDate := Date sample_today\<rparr>\<rparr>"
  let ?later = "sample_today\<lparr>month := 11, day := 31\<rparr>"
  have a: "year sample_today = year sample_today" "year sample_today - year sample_today < 13"
    "year ?later - year sample_today < 13"
    by simp_all
  have b: "birthDate (formData ?st) = Date sample_today" by simp
  from a b fresh_form_flagged [of sample_today "initialState sample_today None" sample_today]
    fresh_form_flagged [of sample_today ?st ?later]
  show ?thesis by blast
qed

text \<open>
  The claim as stated fails. A form constructed on 31 December 2026 and validated on
  1 January 2027 has age 1, not 0; validated in 2039 its birth date is not flagged; and
  with the other fields filled in and the birth date never changed it passes validation
  in 2039.
\<close>

theorem fresh_form_clock_counterexample:
  "age \<lparr>year = 2027, month = 0, day = 1\<rparr>
      (formData (initialState \<lparr>year = 2026, month = 11, day = 31\<rparr> None)) = Some 1
   \<and> birthDateError (errors (snd (validateForm \<lparr>year = 2039, month = 0, day = 1\<rparr>
        (initialState \<lparr>year = 2026, month = 11, day = 31\<rparr> None)))) = None
   \<and> fst (validateForm \<lparr>year = 2039, month = 0, day = 1\<rparr>
        ((initialState \<lparr>year = 2026, month = 11, day = 31\<rparr> None)
           \<lparr>formData := (formData (initialState \<lparr>year = 2026, month = 11, day = 31\<rparr> None))
              \<lparr>firstName := str ''Ana'', lastName := str ''Silva'', email := str ''ana@x.br'',
               phone := str ''(11) 99999-9999'', country := str ''BR''\<rparr>\<rparr>))"
  by code_simp

end
